theory Spec2Isabelle
  imports Main "HOL-Library.Sublist"
begin

section \<open>Value models\<close>

text \<open>
  A \<open>*structpb.Value\<close> as the translator sees it. \<open>NilValue\<close> is the nil pointer,
  \<open>NoKind\<close> a value whose kind is unset (the \<open>default\<close> branch of the type switch).
  A \<open>*structpb.Struct\<close> is its field map, a \<open>*structpb.ListValue\<close> its element list; both
  pointers may be nil (\<open>None\<close>). Field maps are association lists read with \<open>map_of\<close>; the
  order of the entries is representation only. Numbers are Go \<open>float64\<close>; the translator only
  carries them, so the number type is a parameter.
\<close>

datatype 'n pvalue =
    NilValue
  | NoKind
  | NullValue
  | NumberValue 'n
  | StringValue string
  | BoolValue bool
  | StructValue "(string \<times> 'n pvalue) list option"
  | ListValue "'n pvalue list option"

type_synonym 'n pstruct = "(string \<times> 'n pvalue) list"

text \<open>
  A Go \<open>any\<close> as it occurs here: nil, float64, string, bool, \<open>map[string]any\<close> (possibly the
  nil map), \<open>[]any\<close>, or a value of any other Go type (\<open>NOther\<close>).
\<close>

datatype 'n native =
    NNil
  | NFloat 'n
  | NString string
  | NBool bool
  | NMap "(string \<times> 'n native) list option"
  | NSlice "'n native list"
  | NOther

section \<open>Backend messages (package pluginv1)\<close>

record 'n ToolDefinition =
  td_Name :: string
  td_Description :: string
  td_InputSchema :: "'n pstruct option"

record 'n ToolResponse =
  Success :: bool
  Result :: "'n pstruct option"
  ErrorCode :: string
  ErrorMessage :: string

record PromptArgument =
  pa_Name :: string
  pa_Description :: string
  pa_Required :: bool

record PromptDefinition =
  pd_Name :: string
  pd_Description :: string
  pd_Arguments :: "PromptArgument list"

record ContentBlock =
  cb_Type :: string
  cb_Text :: string

record PromptMessage =
  pm_Role :: string
  pm_Content :: "ContentBlock option"

record PromptGetResponse =
  pg_Description :: string
  pg_Messages :: "PromptMessage list"

text \<open>
  The oneof of a \<open>PluginResponse\<close>. \<open>Response_Other\<close> stands for everything on which all four
  getters used here return nil: a nil response, an unset oneof, a nil payload, another kind.
\<close>

datatype 'n PluginResponse =
    Response_ListTools "'n ToolDefinition list"
  | Response_ToolCall "'n ToolResponse"
  | Response_ListPrompts "PromptDefinition list"
  | Response_PromptGet PromptGetResponse
  | Response_Other

record 'n ToolRequest =
  ToolName :: string
  Arguments :: "'n pstruct option"
  CallerPlugin :: string

record PromptGetRequest =
  PromptName :: string
  PromptArguments :: "(string \<times> string) list option"

datatype 'n Request_oneof =
    Request_ListTools
  | Request_ToolCall "'n ToolRequest"
  | Request_ListPrompts
  | Request_PromptGet PromptGetRequest

record 'n PluginRequest =
  RequestId :: string
  Request :: "'n Request_oneof"

section \<open>JSON-RPC and MCP messages (package protocol)\<close>

record MCPContent =
  content_Type :: string
  content_Text :: string

record MCPToolResult =
  Content :: "MCPContent list"
  IsError :: bool

record 'n MCPToolDefinition =
  mcp_Name :: string
  mcp_Description :: string
  mcp_InputSchema :: "'n native"

record MCPPromptArgument =
  mpa_Name :: string
  mpa_Description :: string
  mpa_Required :: bool

record MCPPromptDefinition =
  mpd_Name :: string
  mpd_Description :: string
  mpd_Arguments :: "MCPPromptArgument list"

record MCPPromptMessage =
  mpm_Role :: string
  mpm_Content :: MCPContent

record MCPPromptResult =
  mpr_Description :: string
  mpr_Messages :: "MCPPromptMessage list"

record MCPInitializeResult =
  ProtocolVersion :: string
  Capabilities_Tools :: bool
  Capabilities_Prompts :: bool
  ServerInfo_Name :: string
  ServerInfo_Version :: string

text \<open>The values the handlers put into the \<open>Result\<close> field (a Go \<open>any\<close>).\<close>

datatype 'n Result_payload =
    InitializeResult MCPInitializeResult
  | EmptyObject
  | toolsListResult "'n MCPToolDefinition list"
  | ToolResult MCPToolResult
  | promptsListResult "MCPPromptDefinition list"
  | PromptResult MCPPromptResult

record JSONRPCError =
  Code :: int
  Message :: string

text \<open>
  The request envelope. \<open>req_ID\<close> is a Go \<open>any\<close>, nil (\<open>NNil\<close>) when the line has no id;
  \<open>req_Params\<close> is the raw JSON of the params, nil (\<open>None\<close>) when the line has none.
\<close>

record 'n JSONRPCRequest =
  req_JSONRPC :: string
  req_ID :: "'n native"
  req_Method :: string
  req_Params :: "string option"

record 'n JSONRPCResponse =
  resp_JSONRPC :: string
  resp_ID :: "'n native"
  resp_Result :: "'n Result_payload option"
  resp_Error :: "JSONRPCError option"

text \<open>The error codes, as tabulated in docs/PROTOCOL.md.\<close>

definition ParseError :: int where "ParseError = - 32700"
definition InvalidRequest :: int where "InvalidRequest = - 32600"
definition MethodNotFound :: int where "MethodNotFound = - 32601"
definition InvalidParams :: int where "InvalidParams = - 32602"
definition InternalError :: int where "InternalError = - 32603"

record 'n toolCallParams =
  tc_Name :: string
  tc_Arguments :: "(string \<times> 'n native) list option"

record promptGetParams =
  pgp_Name :: string
  pgp_Arguments :: "(string \<times> string) list option"

section \<open>The collaborators\<close>

text \<open>
  What the package calls and does not define: the Go standard library (\<open>strings.TrimSpace\<close>,
  \<open>json.Unmarshal\<close> at the three types it is used at, \<open>json.Marshal\<close> of a native map and of a
  response, \<open>fmt\<close>'s \<open>%v\<close> of a native value), \<open>structpb.NewStruct\<close>, the \<open>Sender\<close> and the
  \<open>io.Writer\<close>. A Go \<open>error\<close> is its text; a fallible call returns \<open>Inl\<close> of the error text
  or \<open>Inr\<close> of the value. \<open>Send\<close> and \<open>Write\<close> act on the state \<open>'x\<close> of the outside world.
\<close>

record ('n, 'x) env =
  TrimSpace :: "string \<Rightarrow> string"
  Unmarshal_request :: "string \<Rightarrow> string + 'n JSONRPCRequest"
  Unmarshal_toolCallParams :: "string \<Rightarrow> string + 'n toolCallParams"
  Unmarshal_promptGetParams :: "string \<Rightarrow> string + promptGetParams"
  NewStruct :: "(string \<times> 'n native) list option \<Rightarrow> string + 'n pstruct"
  Marshal_native :: "'n native \<Rightarrow> string + string"
  Sprint_v :: "'n native \<Rightarrow> string"
  Marshal_response :: "'n JSONRPCResponse \<Rightarrow> string + string"
  Send :: "'x \<Rightarrow> 'n PluginRequest \<Rightarrow> (string + 'n PluginResponse) \<times> 'x"
  Write :: "'x \<Rightarrow> string \<Rightarrow> string option \<times> 'x"

text \<open>
  The transport: the state of the outside world behind its sender and writer, and three logs
  that only record what the transport did: the requests passed to \<open>Send\<close>, the byte strings
  passed to \<open>Write\<close>, the lines passed to \<open>log.Printf\<close>.
\<close>

record ('n, 'x) StdioTransport =
  ext :: 'x
  sent :: "'n PluginRequest list"
  written :: "string list"
  logged :: "string list"

text \<open>
  One successful \<open>Scan\<close> of the reader: the line \<open>Text\<close> returns, and what \<open>ctx.Err()\<close>
  answers when the loop body asks right after it.
\<close>

record scan_event =
  Text :: string
  ctx_Err :: "string option"

section \<open>The translator\<close>

fun valueToInterface :: "'n pvalue \<Rightarrow> 'n native" where
  "valueToInterface NilValue = NNil"
| "valueToInterface NullValue = NNil"
| "valueToInterface (NumberValue x) = NFloat x"
| "valueToInterface (StringValue s) = NString s"
| "valueToInterface (BoolValue b) = NBool b"
| "valueToInterface (StructValue None) = NMap None"
| "valueToInterface (StructValue (Some fs)) =
     NMap (Some (map (\<lambda>(k, v). (k, valueToInterface v)) fs))"
| "valueToInterface (ListValue None) = NNil"
| "valueToInterface (ListValue (Some vs)) = NSlice (map valueToInterface vs)"
| "valueToInterface NoKind = NNil"

definition StructToMap :: "'n pstruct option \<Rightarrow> (string \<times> 'n native) list option" where
  "StructToMap s =
     (case s of
        None \<Rightarrow> None
      | Some fs \<Rightarrow> Some (map (\<lambda>(k, v). (k, valueToInterface v)) fs))"

definition MapToStruct ::
  "('n, 'x) env \<Rightarrow> (string \<times> 'n native) list option \<Rightarrow> string + 'n pstruct" where
  "MapToStruct e m = NewStruct e m"

text \<open>
  Modelled from the spec: the generated getter \<open>Value.GetStringValue\<close> of structpb is not under
  src/. The spec calls its result the field's string value; like every generated getter it
  returns the field when the kind is the string kind and the zero value, the empty string,
  on a nil pointer and on every other kind.
\<close>

fun GetStringValue :: "'n pvalue \<Rightarrow> string" where
  "GetStringValue (StringValue s) = s"
| "GetStringValue _ = []"

definition extractResultText :: "('n, 'x) env \<Rightarrow> 'n pstruct option \<Rightarrow> string" where
  "extractResultText e s =
     (case s of
        None \<Rightarrow> []
      | Some fs \<Rightarrow>
          (case map_of fs ''text'' of
             Some v \<Rightarrow> GetStringValue v
           | None \<Rightarrow>
               (let m = NMap (StructToMap s) in
                case Marshal_native e m of
                  Inl err \<Rightarrow> Sprint_v e m
                | Inr data \<Rightarrow> data)))"

definition ToolResponseToMCP :: "('n, 'x) env \<Rightarrow> 'n ToolResponse \<Rightarrow> MCPToolResult" where
  "ToolResponseToMCP e resp =
     (if \<not> Success resp then
        (let errMsg = (if ErrorMessage resp = [] then ''tool error: '' @ ErrorCode resp
                       else ErrorMessage resp)
         in \<lparr>Content = [\<lparr>content_Type = ''text'', content_Text = errMsg\<rparr>], IsError = True\<rparr>)
      else
        \<lparr>Content = [\<lparr>content_Type = ''text'',
                     content_Text = extractResultText e (Result resp)\<rparr>],
         IsError = False\<rparr>)"

definition ToolDefinitionToMCP :: "'n ToolDefinition \<Rightarrow> 'n MCPToolDefinition" where
  "ToolDefinitionToMCP td =
     \<lparr>mcp_Name = td_Name td,
      mcp_Description = td_Description td,
      mcp_InputSchema =
        (case td_InputSchema td of
           None \<Rightarrow> NNil
         | Some fs \<Rightarrow> NMap (StructToMap (Some fs)))\<rparr>"

definition PromptDefinitionToMCP :: "PromptDefinition \<Rightarrow> MCPPromptDefinition" where
  "PromptDefinitionToMCP pd =
     \<lparr>mpd_Name = pd_Name pd,
      mpd_Description = pd_Description pd,
      mpd_Arguments =
        map (\<lambda>a. \<lparr>mpa_Name = pa_Name a, mpa_Description = pa_Description a,
                  mpa_Required = pa_Required a\<rparr>) (pd_Arguments pd)\<rparr>"

definition PromptGetResponseToMCP :: "PromptGetResponse \<Rightarrow> MCPPromptResult" where
  "PromptGetResponseToMCP resp =
     \<lparr>mpr_Description = pg_Description resp,
      mpr_Messages =
        map (\<lambda>m. \<lparr>mpm_Role = pm_Role m,
                  mpm_Content =
                    (case pm_Content m of
                       None \<Rightarrow> \<lparr>content_Type = [], content_Text = []\<rparr>
                     | Some c \<Rightarrow> \<lparr>content_Type = cb_Type c, content_Text = cb_Text c\<rparr>)\<rparr>)
            (pg_Messages resp)\<rparr>"

section \<open>The handlers\<close>

text \<open>\<open>t.sender.Send\<close>: the call is recorded in \<open>sent\<close> and the outside world moves on.\<close>

definition call_Send ::
  "('n, 'x) env \<Rightarrow> ('n, 'x) StdioTransport \<Rightarrow> 'n PluginRequest \<Rightarrow>
     (string + 'n PluginResponse) \<times> ('n, 'x) StdioTransport" where
  "call_Send e t preq =
     (case Send e (ext t) preq of
        (r, x') \<Rightarrow> (r, t\<lparr>ext := x', sent := sent t @ [preq]\<rparr>))"

definition error_response :: "'n native \<Rightarrow> int \<Rightarrow> string \<Rightarrow> 'n JSONRPCResponse" where
  "error_response i c m =
     \<lparr>resp_JSONRPC = ''2.0'', resp_ID = i, resp_Result = None,
      resp_Error = Some \<lparr>Code = c, Message = m\<rparr>\<rparr>"

definition result_response :: "'n native \<Rightarrow> 'n Result_payload \<Rightarrow> 'n JSONRPCResponse" where
  "result_response i r =
     \<lparr>resp_JSONRPC = ''2.0'', resp_ID = i, resp_Result = Some r, resp_Error = None\<rparr>"

text \<open>
  The handlers are those of the file that defines all six handlers \<open>dispatch\<close> calls. The
  shorter \<open>internal/handler.go\<close> has the same \<open>handlePing\<close>, \<open>handleToolsList\<close> and
  \<open>handleToolsCall\<close>, no prompt handlers, and an \<open>initialize\<close> result without the prompts
  capability. The elements of a repeated field are taken to be non-nil.
\<close>

definition handleInitialize :: "'n JSONRPCRequest \<Rightarrow> 'n JSONRPCResponse" where
  "handleInitialize req =
     result_response (req_ID req)
       (InitializeResult
          \<lparr>ProtocolVersion = ''2024-11-05'',
           Capabilities_Tools = True,
           Capabilities_Prompts = True,
           ServerInfo_Name = ''orchestra'',
           ServerInfo_Version = ''1.0.0''\<rparr>)"

definition handlePing :: "'n JSONRPCRequest \<Rightarrow> 'n JSONRPCResponse" where
  "handlePing req = result_response (req_ID req) EmptyObject"

definition GetListTools :: "'n PluginResponse \<Rightarrow> 'n ToolDefinition list option" where
  "GetListTools r = (case r of Response_ListTools tools \<Rightarrow> Some tools | _ \<Rightarrow> None)"

definition GetToolCall :: "'n PluginResponse \<Rightarrow> 'n ToolResponse option" where
  "GetToolCall r = (case r of Response_ToolCall tc \<Rightarrow> Some tc | _ \<Rightarrow> None)"

definition GetListPrompts :: "'n PluginResponse \<Rightarrow> PromptDefinition list option" where
  "GetListPrompts r = (case r of Response_ListPrompts ps \<Rightarrow> Some ps | _ \<Rightarrow> None)"

definition GetPromptGet :: "'n PluginResponse \<Rightarrow> PromptGetResponse option" where
  "GetPromptGet r = (case r of Response_PromptGet pg \<Rightarrow> Some pg | _ \<Rightarrow> None)"

definition listToolsRequest :: "('n, 'x) env \<Rightarrow> 'n JSONRPCRequest \<Rightarrow> 'n PluginRequest" where
  "listToolsRequest e req =
     \<lparr>RequestId = ''stdio-lt-'' @ Sprint_v e (req_ID req), Request = Request_ListTools\<rparr>"

definition handleToolsList ::
  "('n, 'x) env \<Rightarrow> ('n, 'x) StdioTransport \<Rightarrow> 'n JSONRPCRequest \<Rightarrow>
     'n JSONRPCResponse \<times> ('n, 'x) StdioTransport" where
  "handleToolsList e t req =
     (case call_Send e t (listToolsRequest e req) of
        (Inl err, t') \<Rightarrow>
          (error_response (req_ID req) InternalError
             (''orchestrator list_tools failed: '' @ err), t')
      | (Inr resp, t') \<Rightarrow>
          (case GetListTools resp of
             None \<Rightarrow>
               (error_response (req_ID req) InternalError
                  ''unexpected response type from orchestrator'', t')
           | Some tools \<Rightarrow>
               (result_response (req_ID req)
                  (toolsListResult (map ToolDefinitionToMCP tools)), t')))"

definition toolCallRequest ::
  "('n, 'x) env \<Rightarrow> 'n JSONRPCRequest \<Rightarrow> string \<Rightarrow> 'n pstruct option \<Rightarrow> 'n PluginRequest" where
  "toolCallRequest e req name args =
     \<lparr>RequestId = ''stdio-tc-'' @ Sprint_v e (req_ID req),
      Request = Request_ToolCall
        \<lparr>ToolName = name, Arguments = args, CallerPlugin = ''transport.stdio''\<rparr>\<rparr>"

text \<open>
  The tail of \<open>handleToolsCall\<close>, from the call of \<open>Send\<close> on: reached with the decoded name
  and the converted arguments.
\<close>

definition sendToolCall ::
  "('n, 'x) env \<Rightarrow> ('n, 'x) StdioTransport \<Rightarrow> 'n JSONRPCRequest \<Rightarrow> string \<Rightarrow>
     'n pstruct option \<Rightarrow> 'n JSONRPCResponse \<times> ('n, 'x) StdioTransport" where
  "sendToolCall e t req name args =
     (case call_Send e t (toolCallRequest e req name args) of
        (Inl err, t') \<Rightarrow>
          (error_response (req_ID req) InternalError
             (''orchestrator tool_call failed: '' @ err), t')
      | (Inr resp, t') \<Rightarrow>
          (case GetToolCall resp of
             None \<Rightarrow>
               (error_response (req_ID req) InternalError
                  ''unexpected response type from orchestrator'', t')
           | Some tc \<Rightarrow>
               (result_response (req_ID req) (ToolResult (ToolResponseToMCP e tc)), t')))"

text \<open>
  \<open>var params toolCallParams\<close> starts as the zero value; it is decoded only when the request
  has params.
\<close>

definition decode_toolCallParams ::
  "('n, 'x) env \<Rightarrow> string option \<Rightarrow> string + 'n toolCallParams" where
  "decode_toolCallParams e raw =
     (case raw of
        None \<Rightarrow> Inr \<lparr>tc_Name = [], tc_Arguments = None\<rparr>
      | Some p \<Rightarrow> Unmarshal_toolCallParams e p)"

text \<open>
  \<open>var args *structpb.Struct\<close> stays nil when the params have no arguments map; otherwise it is
  what \<open>structpb.NewStruct\<close> makes of the map, or the conversion fails.
\<close>

definition convert_arguments ::
  "('n, 'x) env \<Rightarrow> 'n toolCallParams \<Rightarrow> string + 'n pstruct option" where
  "convert_arguments e params =
     (case tc_Arguments params of
        None \<Rightarrow> Inr None
      | Some m \<Rightarrow>
          (case NewStruct e (Some m) of
             Inl err \<Rightarrow> Inl err
           | Inr args \<Rightarrow> Inr (Some args)))"

definition handleToolsCall ::
  "('n, 'x) env \<Rightarrow> ('n, 'x) StdioTransport \<Rightarrow> 'n JSONRPCRequest \<Rightarrow>
     'n JSONRPCResponse \<times> ('n, 'x) StdioTransport" where
  "handleToolsCall e t req =
     (case decode_toolCallParams e (req_Params req) of
        Inl err \<Rightarrow>
          (error_response (req_ID req) InvalidParams (''invalid params: '' @ err), t)
      | Inr params \<Rightarrow>
          if tc_Name params = [] then
            (error_response (req_ID req) InvalidParams
               ''missing required parameter: name'', t)
          else
            (case convert_arguments e params of
               Inl err \<Rightarrow>
                 (error_response (req_ID req) InvalidParams
                    (''invalid arguments: '' @ err), t)
             | Inr args \<Rightarrow> sendToolCall e t req (tc_Name params) args))"

definition listPromptsRequest :: "('n, 'x) env \<Rightarrow> 'n JSONRPCRequest \<Rightarrow> 'n PluginRequest" where
  "listPromptsRequest e req =
     \<lparr>RequestId = ''stdio-lp-'' @ Sprint_v e (req_ID req), Request = Request_ListPrompts\<rparr>"

definition handlePromptsList ::
  "('n, 'x) env \<Rightarrow> ('n, 'x) StdioTransport \<Rightarrow> 'n JSONRPCRequest \<Rightarrow>
     'n JSONRPCResponse \<times> ('n, 'x) StdioTransport" where
  "handlePromptsList e t req =
     (case call_Send e t (listPromptsRequest e req) of
        (Inl err, t') \<Rightarrow>
          (error_response (req_ID req) InternalError
             (''orchestrator list_prompts failed: '' @ err), t')
      | (Inr resp, t') \<Rightarrow>
          (case GetListPrompts resp of
             None \<Rightarrow>
               (error_response (req_ID req) InternalError
                  ''unexpected response type from orchestrator'', t')
           | Some ps \<Rightarrow>
               (result_response (req_ID req)
                  (promptsListResult (map PromptDefinitionToMCP ps)), t')))"

definition decode_promptGetParams ::
  "('n, 'x) env \<Rightarrow> string option \<Rightarrow> string + promptGetParams" where
  "decode_promptGetParams e raw =
     (case raw of
        None \<Rightarrow> Inr \<lparr>pgp_Name = [], pgp_Arguments = None\<rparr>
      | Some p \<Rightarrow> Unmarshal_promptGetParams e p)"

definition promptGetRequest ::
  "('n, 'x) env \<Rightarrow> 'n JSONRPCRequest \<Rightarrow> promptGetParams \<Rightarrow> 'n PluginRequest" where
  "promptGetRequest e req params =
     \<lparr>RequestId = ''stdio-pg-'' @ Sprint_v e (req_ID req),
      Request = Request_PromptGet
        \<lparr>PromptName = pgp_Name params, PromptArguments = pgp_Arguments params\<rparr>\<rparr>"

definition handlePromptsGet ::
  "('n, 'x) env \<Rightarrow> ('n, 'x) StdioTransport \<Rightarrow> 'n JSONRPCRequest \<Rightarrow>
     'n JSONRPCResponse \<times> ('n, 'x) StdioTransport" where
  "handlePromptsGet e t req =
     (case decode_promptGetParams e (req_Params req) of
        Inl err \<Rightarrow>
          (error_response (req_ID req) InvalidParams (''invalid params: '' @ err), t)
      | Inr params \<Rightarrow>
          if pgp_Name params = [] then
            (error_response (req_ID req) InvalidParams
               ''missing required parameter: name'', t)
          else
            (case call_Send e t (promptGetRequest e req params) of
               (Inl err, t') \<Rightarrow>
                 (error_response (req_ID req) InternalError
                    (''orchestrator prompt_get failed: '' @ err), t')
             | (Inr resp, t') \<Rightarrow>
                 (case GetPromptGet resp of
                    None \<Rightarrow>
                      (error_response (req_ID req) InternalError
                         ''unexpected response type from orchestrator'', t')
                  | Some pg \<Rightarrow>
                      (result_response (req_ID req)
                         (PromptResult (PromptGetResponseToMCP pg)), t'))))"

section \<open>The transport loop\<close>

text \<open>\<open>dispatch\<close> returns nil (\<open>None\<close>) when no response is to be written.\<close>

definition dispatch ::
  "('n, 'x) env \<Rightarrow> ('n, 'x) StdioTransport \<Rightarrow> 'n JSONRPCRequest \<Rightarrow>
     'n JSONRPCResponse option \<times> ('n, 'x) StdioTransport" where
  "dispatch e t req =
     (if req_Method req = ''initialize'' then (Some (handleInitialize req), t)
      else if req_Method req = ''ping'' then (Some (handlePing req), t)
      else if req_Method req = ''tools/list'' then
        (case handleToolsList e t req of (r, t') \<Rightarrow> (Some r, t'))
      else if req_Method req = ''tools/call'' then
        (case handleToolsCall e t req of (r, t') \<Rightarrow> (Some r, t'))
      else if req_Method req = ''prompts/list'' then
        (case handlePromptsList e t req of (r, t') \<Rightarrow> (Some r, t'))
      else if req_Method req = ''prompts/get'' then
        (case handlePromptsGet e t req of (r, t') \<Rightarrow> (Some r, t'))
      else if prefix ''notifications/'' (req_Method req) then
        (None, t\<lparr>logged := logged t @ [''notification: '' @ req_Method req]\<rparr>)
      else
        (Some (error_response (req_ID req) MethodNotFound
                 (''method not found: '' @ req_Method req)), t))"

definition newline :: string where
  "newline = [CHR 0x0A]"

text \<open>
  \<open>writeResponse\<close>: a response that cannot be marshalled is not written; otherwise the line is
  passed to \<open>Write\<close> (recorded in \<open>written\<close>) and the error of \<open>Write\<close> is returned.
\<close>

definition writeResponse ::
  "('n, 'x) env \<Rightarrow> ('n, 'x) StdioTransport \<Rightarrow> 'n JSONRPCResponse \<Rightarrow>
     string option \<times> ('n, 'x) StdioTransport" where
  "writeResponse e t resp =
     (case Marshal_response e resp of
        Inl err \<Rightarrow> (Some (''marshal response: '' @ err), t)
      | Inr data \<Rightarrow>
          (case Write e (ext t) (data @ newline) of
             (werr, x') \<Rightarrow> (werr, t\<lparr>ext := x', written := written t @ [data @ newline]\<rparr>)))"

text \<open>
  The body of the loop of \<open>Run\<close>, for one scanned line: \<open>Some err\<close> is \<open>return err\<close>, \<open>None\<close>
  goes on to the next \<open>Scan\<close>.
\<close>

definition loop_body ::
  "('n, 'x) env \<Rightarrow> ('n, 'x) StdioTransport \<Rightarrow> scan_event \<Rightarrow>
     string option \<times> ('n, 'x) StdioTransport" where
  "loop_body e t ev =
     (case ctx_Err ev of
        Some cerr \<Rightarrow> (Some cerr, t)
      | None \<Rightarrow>
          (let line = TrimSpace e (Text ev) in
           if line = [] then (None, t)
           else
             (case Unmarshal_request e line of
                Inl err \<Rightarrow>
                  (case writeResponse e t
                          (error_response NNil ParseError (''parse error: '' @ err)) of
                     (Some werr, t') \<Rightarrow> (Some (''write parse error response: '' @ werr), t')
                   | (None, t') \<Rightarrow> (None, t'))
              | Inr req \<Rightarrow>
                  (case dispatch e t req of
                     (None, t') \<Rightarrow> (None, t')
                   | (Some resp, t') \<Rightarrow>
                       (case writeResponse e t' resp of
                          (Some werr, t'') \<Rightarrow> (Some (''write response: '' @ werr), t'')
                        | (None, t'') \<Rightarrow> (None, t''))))))"

text \<open>What \<open>Run\<close> returns once \<open>Scan\<close> has stopped: the scanner's error, wrapped, or nil.\<close>

definition scanner_error :: "string option \<Rightarrow> string option" where
  "scanner_error rerr =
     (case rerr of
        Some err \<Rightarrow> Some (''scanner error: '' @ err)
      | None \<Rightarrow> None)"

text \<open>
  \<open>Run\<close> on the lines the scanner delivers before it stops, and the error \<open>reader.Err()\<close>
  reports then. The result is the returned error (\<open>None\<close> is nil), the transport, and the
  scanned lines the loop never took from the reader.
\<close>

fun Run ::
  "('n, 'x) env \<Rightarrow> ('n, 'x) StdioTransport \<Rightarrow> string option \<Rightarrow> scan_event list \<Rightarrow>
     string option \<times> ('n, 'x) StdioTransport \<times> scan_event list" where
  "Run e t rerr [] = (scanner_error rerr, t, [])"
| "Run e t rerr (ev # rest) =
     (case loop_body e t ev of
        (Some err, t') \<Rightarrow> (Some err, t', rest)
      | (None, t') \<Rightarrow> Run e t' rerr rest)"

section \<open>The structured-value constructor\<close>

text \<open>\<open>collect\<close> gathers the results of converting the elements, stopping at the first error.\<close>

fun collect :: "(string + 'a) list \<Rightarrow> string + 'a list" where
  "collect [] = Inr []"
| "collect (Inl err # rs) = Inl err"
| "collect (Inr x # rs) = (case collect rs of Inl err \<Rightarrow> Inl err | Inr xs \<Rightarrow> Inr (x # xs))"

text \<open>
  Modelled from the spec: \<open>structpb.NewValue\<close> and \<open>structpb.NewStruct\<close>, which \<open>MapToStruct\<close>
  and \<open>handleToolsCall\<close> call, are not under src/. Section 4.7 of the spec gives the
  native-to-structured direction as the inverse mapping: null to null, number to number,
  string to string, bool to bool, sequence to list, map to struct, key by key, a key whose
  value is an explicit null being encoded as null; a value of a type the structured model
  does not have fails with a conversion error. A nil map converts like the empty map.
  Strings are taken to be valid UTF-8, as protobuf strings are.
\<close>

fun structpb_NewValue :: "'n native \<Rightarrow> string + 'n pvalue" where
  "structpb_NewValue NNil = Inr NullValue"
| "structpb_NewValue (NFloat x) = Inr (NumberValue x)"
| "structpb_NewValue (NString s) = Inr (StringValue s)"
| "structpb_NewValue (NBool b) = Inr (BoolValue b)"
| "structpb_NewValue (NMap None) = Inr (StructValue (Some []))"
| "structpb_NewValue (NMap (Some m)) =
     (case collect (map (\<lambda>(k, v). case structpb_NewValue v of
                                      Inl err \<Rightarrow> Inl err
                                    | Inr p \<Rightarrow> Inr (k, p)) m) of
        Inl err \<Rightarrow> Inl err
      | Inr fs \<Rightarrow> Inr (StructValue (Some fs)))"
| "structpb_NewValue (NSlice xs) =
     (case collect (map structpb_NewValue xs) of
        Inl err \<Rightarrow> Inl err
      | Inr vs \<Rightarrow> Inr (ListValue (Some vs)))"
| "structpb_NewValue NOther = Inl ''proto: invalid type''"

definition structpb_NewStruct :: "(string \<times> 'n native) list option \<Rightarrow> string + 'n pstruct" where
  "structpb_NewStruct m =
     (case m of
        None \<Rightarrow> Inr []
      | Some kvs \<Rightarrow>
          collect (map (\<lambda>(k, v). case structpb_NewValue v of
                                   Inl err \<Rightarrow> Inl err
                                 | Inr p \<Rightarrow> Inr (k, p)) kvs))"

text \<open>
  The values expressible in both models. A structured value is, when it has no nil pointer
  and no unset kind inside (the translator sends all of these to nil, which comes back as
  the null kind). A native value is, when it has no nil map and no value of a foreign Go
  type inside.
\<close>

fun expressible :: "'n pvalue \<Rightarrow> bool" where
  "expressible NilValue = False"
| "expressible NoKind = False"
| "expressible (StructValue None) = False"
| "expressible (ListValue None) = False"
| "expressible (StructValue (Some fs)) = (\<forall>(k, v) \<in> set fs. expressible v)"
| "expressible (ListValue (Some vs)) = (\<forall>v \<in> set vs. expressible v)"
| "expressible _ = True"

fun json_like :: "'n native \<Rightarrow> bool" where
  "json_like NOther = False"
| "json_like (NMap None) = False"
| "json_like (NMap (Some m)) = (\<forall>(k, v) \<in> set m. json_like v)"
| "json_like (NSlice xs) = (\<forall>v \<in> set xs. json_like v)"
| "json_like _ = True"

section \<open>Reading the run loop\<close>

definition NewStdioTransport :: "'x \<Rightarrow> ('n, 'x) StdioTransport" where
  "NewStdioTransport x = \<lparr>ext = x, sent = [], written = [], logged = []\<rparr>"

text \<open>What \<open>json.Unmarshal\<close> makes of the trimmed line of a scan.\<close>

definition decoded :: "('n, 'x) env \<Rightarrow> scan_event \<Rightarrow> string + 'n JSONRPCRequest" where
  "decoded e ev = Unmarshal_request e (TrimSpace e (Text ev))"



section \<open>Test doubles\<close>

text \<open>
  Collaborators to run the model on, in the manner of the \<open>mockSender\<close> of the package's
  tests: a decoder that knows the lines of a table, a sender that answers from a script
  (its state), and a writer that always succeeds.
\<close>

definition mock_Sprint :: "int native \<Rightarrow> string" where
  "mock_Sprint v =
     (case v of
        NNil \<Rightarrow> ''<nil>''
      | NString s \<Rightarrow> s
      | NFloat n \<Rightarrow> (if n = 1 then ''1'' else if n = 2 then ''2'' else ''#'')
      | _ \<Rightarrow> ''?'')"

definition mock_Marshal_response :: "int JSONRPCResponse \<Rightarrow> string + string" where
  "mock_Marshal_response r =
     Inr (''id='' @ mock_Sprint (resp_ID r) @
          (case resp_Error r of
             Some err \<Rightarrow> '' error='' @ Message err
           | None \<Rightarrow> '' result''))"

definition mock_Send ::
  "(string + 'n PluginResponse) list \<Rightarrow> 'n PluginRequest \<Rightarrow>
     (string + 'n PluginResponse) \<times> (string + 'n PluginResponse) list" where
  "mock_Send script preq =
     (case script of
        [] \<Rightarrow> (Inl ''mockSender: no sendFunc configured'', [])
      | r # rs \<Rightarrow> (r, rs))"

definition trim_blanks :: "string \<Rightarrow> string" where
  "trim_blanks s =
     rev (dropWhile (\<lambda>c. c = CHR '' '') (rev (dropWhile (\<lambda>c. c = CHR '' '') s)))"

definition mock_env ::
  "(string \<times> int JSONRPCRequest) list \<Rightarrow> (string \<times> int toolCallParams) list \<Rightarrow>
     (int, (string + int PluginResponse) list) env" where
  "mock_env requests params =
     \<lparr>TrimSpace = trim_blanks,
      Unmarshal_request =
        (\<lambda>l. case map_of requests l of
               None \<Rightarrow> Inl ''invalid character''
             | Some r \<Rightarrow> Inr r),
      Unmarshal_toolCallParams =
        (\<lambda>l. case map_of params l of
               None \<Rightarrow> Inl ''unexpected end of JSON input''
             | Some p \<Rightarrow> Inr p),
      Unmarshal_promptGetParams = (\<lambda>l. Inl ''unexpected end of JSON input''),
      NewStruct = structpb_NewStruct,
      Marshal_native = (\<lambda>v. Inr (''json '' @ mock_Sprint v)),
      Sprint_v = mock_Sprint,
      Marshal_response = mock_Marshal_response,
      Send = mock_Send,
      Write = (\<lambda>x data. (None, x))\<rparr>"

definition request :: "int native \<Rightarrow> string \<Rightarrow> string option \<Rightarrow> int JSONRPCRequest" where
  "request i m p = \<lparr>req_JSONRPC = ''2.0'', req_ID = i, req_Method = m, req_Params = p\<rparr>"

definition scanned :: "string \<Rightarrow> scan_event" where
  "scanned l = \<lparr>Text = l, ctx_Err = None\<rparr>"

definition scanned_cancelled :: "string \<Rightarrow> scan_event" where
  "scanned_cancelled l = \<lparr>Text = l, ctx_Err = Some ''context canceled''\<rparr>"

text \<open>The lines and params the decoder of the examples knows, and the methods with a handler.\<close>

definition example_requests :: "(string \<times> int JSONRPCRequest) list" where
  \<open>example_requests =
     [(''{"jsonrpc":"2.0","id":1,"method":"initialize"}'',
         request (NFloat 1) ''initialize'' None),
      (''{"jsonrpc":"2.0","method":"notifications/initialized"}'',
         request NNil ''notifications/initialized'' None),
      (''{"jsonrpc":"2.0","id":1,"method":"notifications/initialized"}'',
         request (NFloat 1) ''notifications/initialized'' None),
      (''{"jsonrpc":"2.0","id":2,"method":"ping"}'',
         request (NFloat 2) ''ping'' None),
      (''{"jsonrpc":"2.0","method":"ping"}'',
         request NNil ''ping'' None),
      (''{"jsonrpc":"2.0","id":"a","method":"unknown/method"}'',
         request (NString ''a'') ''unknown/method'' None),
      (''{"jsonrpc":"2.0","id":2,"method":"tools/list"}'',
         request (NFloat 2) ''tools/list'' None),
      (''{"jsonrpc":"2.0","id":1,"method":"tools/call"}'',
         request (NFloat 1) ''tools/call'' None),
      (''{"jsonrpc":"2.0","id":1,"method":"tools/call","params":{}}'',
         request (NFloat 1) ''tools/call'' (Some ''{}'')),
      (''{"jsonrpc":"2.0","id":1,"method":"tools/call","params":[]}'',
         request (NFloat 1) ''tools/call'' (Some ''[]'')),
      (''{"jsonrpc":"2.0","id":1,"method":"tools/call","params":{"name":"f"}}'',
         request (NFloat 1) ''tools/call'' (Some ''{"name":"f"}'')),
      (''{"jsonrpc":"2.0","id":1,"method":"tools/call","params":{"name":"g"}}'',
         request (NFloat 1) ''tools/call'' (Some ''{"name":"g"}''))]\<close>

text \<open>
  The params \<open>{"name":"g"}\<close> stand for params whose arguments map holds a value the structured
  model does not have.
\<close>

definition example_params :: "(string \<times> int toolCallParams) list" where
  \<open>example_params =
     [(''{}'', \<lparr>tc_Name = [], tc_Arguments = None\<rparr>),
      (''{"name":"f"}'', \<lparr>tc_Name = ''f'', tc_Arguments = Some [(''k'', NString ''v'')]\<rparr>),
      (''{"name":"g"}'', \<lparr>tc_Name = ''g'', tc_Arguments = Some [(''k'', NOther)]\<rparr>)]\<close>

definition example_env :: "(int, (string + int PluginResponse) list) env" where
  "example_env = mock_env example_requests example_params"

definition exact_methods :: "string list" where
  "exact_methods =
     [''initialize'', ''ping'', ''tools/list'', ''tools/call'', ''prompts/list'', ''prompts/get'']"

section \<open>Test doubles with a JSON encoder\<close>

text \<open>
  A second set of doubles, for the replies a serializer refuses. Its numbers are an integer
  or NaN. Its encoder writes compact JSON in the manner of \<open>encoding/json\<close>: the entries of
  an object in the order of the association list, only the quote and the backslash
  escaped, and NaN refused with the error of \<open>encoding/json\<close>. \<open>go_v\<close> renders a value the
  way \<open>%v\<close> does.
\<close>

datatype number = Num int | NaN

definition digit :: "nat \<Rightarrow> char" where
  "digit d = ''0123456789'' ! d"

fun show_nat :: "nat \<Rightarrow> string" where
  "show_nat n = (if n < 10 then [digit n] else show_nat (n div 10) @ [digit (n mod 10)])"

definition show_int :: "int \<Rightarrow> string" where
  "show_int i = (if i < 0 then CHR ''-'' # show_nat (nat (- i)) else show_nat (nat i))"

definition json_quote :: "string \<Rightarrow> string" where
  "json_quote s =
     CHR 0x22 #
     concat (map (\<lambda>c. if c = CHR 0x22 \<or> c = CHR 0x5C then [CHR 0x5C, c] else [c]) s) @
     [CHR 0x22]"

fun join :: "string \<Rightarrow> string list \<Rightarrow> string" where
  "join sep [] = []"
| "join sep [x] = x"
| "join sep (x # y # ys) = x @ sep @ join sep (y # ys)"

fun json_encode :: "number native \<Rightarrow> string + string" where
  "json_encode NNil = Inr ''null''"
| "json_encode (NFloat (Num i)) = Inr (show_int i)"
| "json_encode (NFloat NaN) = Inl ''json: unsupported value: NaN''"
| "json_encode (NString s) = Inr (json_quote s)"
| "json_encode (NBool b) = Inr (if b then ''true'' else ''false'')"
| "json_encode (NMap None) = Inr ''null''"
| "json_encode (NMap (Some m)) =
     (case collect (map (\<lambda>(k, v). case json_encode v of
                                      Inl err \<Rightarrow> Inl err
                                    | Inr d \<Rightarrow> Inr (json_quote k @ '':'' @ d)) m) of
        Inl err \<Rightarrow> Inl err
      | Inr ds \<Rightarrow> Inr (''{'' @ join '','' ds @ ''}''))"
| "json_encode (NSlice xs) =
     (case collect (map json_encode xs) of
        Inl err \<Rightarrow> Inl err
      | Inr ds \<Rightarrow> Inr (''['' @ join '','' ds @ '']''))"
| "json_encode NOther = Inl ''json: unsupported type''"

fun go_v :: "number native \<Rightarrow> string" where
  "go_v NNil = ''<nil>''"
| "go_v (NFloat (Num i)) = show_int i"
| "go_v (NFloat NaN) = ''NaN''"
| "go_v (NString s) = s"
| "go_v (NBool b) = (if b then ''true'' else ''false'')"
| "go_v (NMap None) = ''map[]''"
| "go_v (NMap (Some m)) = ''map['' @ join '' '' (map (\<lambda>(k, v). k @ '':'' @ go_v v) m) @ '']''"
| "go_v (NSlice xs) = ''['' @ join '' '' (map go_v xs) @ '']''"
| "go_v NOther = ''?''"

text \<open>The response as the JSON object of docs/PROTOCOL.md, before it is encoded.\<close>

definition content_native :: "MCPContent \<Rightarrow> number native" where
  "content_native c =
     NMap (Some [(''type'', NString (content_Type c)), (''text'', NString (content_Text c))])"

definition payload_native :: "number Result_payload \<Rightarrow> number native" where
  "payload_native p =
     (case p of
        InitializeResult r \<Rightarrow>
          NMap (Some [(''protocolVersion'', NString (ProtocolVersion r)),
                      (''capabilities'',
                         NMap (Some ((if Capabilities_Tools r
                                      then [(''tools'', NMap (Some []))] else []) @
                                     (if Capabilities_Prompts r
                                      then [(''prompts'', NMap (Some []))] else [])))),
                      (''serverInfo'',
                         NMap (Some [(''name'', NString (ServerInfo_Name r)),
                                     (''version'', NString (ServerInfo_Version r))]))])
      | EmptyObject \<Rightarrow> NMap (Some [])
      | toolsListResult ts \<Rightarrow>
          NMap (Some [(''tools'',
                  NSlice (map (\<lambda>t. NMap (Some [(''name'', NString (mcp_Name t)),
                                                (''description'', NString (mcp_Description t)),
                                                (''inputSchema'', mcp_InputSchema t)])) ts))])
      | ToolResult r \<Rightarrow>
          NMap (Some ((''content'', NSlice (map content_native (Content r))) #
                      (if IsError r then [(''isError'', NBool True)] else [])))
      | promptsListResult ps \<Rightarrow>
          NMap (Some [(''prompts'',
                  NSlice (map (\<lambda>d. NMap (Some [(''name'', NString (mpd_Name d)),
                                                (''description'', NString (mpd_Description d))]))
                            ps))])
      | PromptResult r \<Rightarrow>
          NMap (Some [(''description'', NString (mpr_Description r)),
                      (''messages'',
                         NSlice (map (\<lambda>m. NMap (Some [(''role'', NString (mpm_Role m)),
                                                       (''content'',
                                                          content_native (mpm_Content m))]))
                                   (mpr_Messages r)))]))"

definition response_native :: "number JSONRPCResponse \<Rightarrow> number native" where
  "response_native r =
     NMap (Some ([(''jsonrpc'', NString (resp_JSONRPC r)), (''id'', resp_ID r)] @
                 (case resp_Result r of
                    None \<Rightarrow> []
                  | Some p \<Rightarrow> [(''result'', payload_native p)]) @
                 (case resp_Error r of
                    None \<Rightarrow> []
                  | Some err \<Rightarrow>
                      [(''error'',
                          NMap (Some [(''code'', NFloat (Num (Code err))),
                                      (''message'', NString (Message err))]))])))"

definition json_requests :: "(string \<times> number JSONRPCRequest) list" where
  \<open>json_requests =
     [(''{"jsonrpc":"2.0","id":1,"method":"ping"}'',
         \<lparr>req_JSONRPC = ''2.0'', req_ID = NFloat (Num 1), req_Method = ''ping'',
          req_Params = None\<rparr>),
      (''{"jsonrpc":"2.0","id":2,"method":"tools/list"}'',
         \<lparr>req_JSONRPC = ''2.0'', req_ID = NFloat (Num 2), req_Method = ''tools/list'',
          req_Params = None\<rparr>)]\<close>

definition json_env :: "(number, (string + number PluginResponse) list) env" where
  "json_env =
     \<lparr>TrimSpace = trim_blanks,
      Unmarshal_request =
        (\<lambda>l. case map_of json_requests l of
               None \<Rightarrow> Inl ''invalid character''
             | Some r \<Rightarrow> Inr r),
      Unmarshal_toolCallParams = (\<lambda>l. Inl ''unexpected end of JSON input''),
      Unmarshal_promptGetParams = (\<lambda>l. Inl ''unexpected end of JSON input''),
      NewStruct = structpb_NewStruct,
      Marshal_native = json_encode,
      Sprint_v = go_v,
      Marshal_response = (\<lambda>r. json_encode (response_native r)),
      Send = mock_Send,
      Write = (\<lambda>x data. (None, x))\<rparr>"


section \<open>Rendering a tool response\<close>

text \<open>
  C3, as stated, fails where it says that a result without a \<open>text\<close> field is always
  rendered as its JSON serialization: \<open>json.Marshal\<close> refuses a result that holds a NaN,
  and \<open>extractResultText\<close> then falls back to the \<open>%v\<close> rendering of the map, which is
  not JSON.
\<close>

theorem unserializable_result_is_not_JSON:
  "Marshal_native json_env (NMap (Some [(''x'', NFloat NaN)])) =
     Inl ''json: unsupported value: NaN'' \<and>
   ToolResponseToMCP json_env
     \<lparr>Success = True, Result = Some [(''x'', NumberValue NaN)],
      ErrorCode = [], ErrorMessage = []\<rparr> =
     \<lparr>Content = [\<lparr>content_Type = ''text'', content_Text = ''map[x:NaN]''\<rparr>],
      IsError = False\<rparr>"
  by (simp add: json_env_def ToolResponseToMCP_def extractResultText_def StructToMap_def)

text \<open>
  C3, amended. Every \<open>ToolResponse\<close> is rendered with exactly one content block, of type
  text. A failed response carries its error message, or, when that is empty, the text
  \<open>tool error:\<close> followed by its error code, and is flagged as an error. A successful
  response whose result has a \<open>text\<close> field holding a string carries that string unchanged.
  One whose result has no \<open>text\<close> field carries the JSON serialization of the whole result,
  that is of the native map with every field of the result under its key, translated; when
  \<open>json.Marshal\<close> refuses that map, it carries the \<open>%v\<close> rendering of the same map
  instead. A successful response is never flagged as an error.
\<close>

theorem ToolResponseToMCP_renders:
  "(\<exists>txt. Content (ToolResponseToMCP e r) = [\<lparr>content_Type = ''text'', content_Text = txt\<rparr>]) \<and>
   (\<not> Success r \<and> ErrorMessage r \<noteq> [] \<longrightarrow>
      ToolResponseToMCP e r =
        \<lparr>Content = [\<lparr>content_Type = ''text'', content_Text = ErrorMessage r\<rparr>],
         IsError = True\<rparr>) \<and>
   (\<not> Success r \<and> ErrorMessage r = [] \<longrightarrow>
      ToolResponseToMCP e r =
        \<lparr>Content = [\<lparr>content_Type = ''text'',
                     content_Text = ''tool error: '' @ ErrorCode r\<rparr>],
         IsError = True\<rparr>) \<and>
   (\<forall>fs s. Success r \<and> Result r = Some fs \<and> map_of fs ''text'' = Some (StringValue s) \<longrightarrow>
      ToolResponseToMCP e r =
        \<lparr>Content = [\<lparr>content_Type = ''text'', content_Text = s\<rparr>], IsError = False\<rparr>) \<and>
   (\<forall>fs data. Success r \<and> Result r = Some fs \<and> map_of fs ''text'' = None \<and>
      Marshal_native e (NMap (Some (map (\<lambda>(k, v). (k, valueToInterface v)) fs))) =
        Inr data \<longrightarrow>
      ToolResponseToMCP e r =
        \<lparr>Content = [\<lparr>content_Type = ''text'', content_Text = data\<rparr>], IsError = False\<rparr>) \<and>
   (\<forall>fs err. Success r \<and> Result r = Some fs \<and> map_of fs ''text'' = None \<and>
      Marshal_native e (NMap (Some (map (\<lambda>(k, v). (k, valueToInterface v)) fs))) =
        Inl err \<longrightarrow>
      ToolResponseToMCP e r =
        \<lparr>Content = [\<lparr>content_Type = ''text'',
                     content_Text =
                       Sprint_v e (NMap (Some (map (\<lambda>(k, v). (k, valueToInterface v)) fs)))\<rparr>],
         IsError = False\<rparr>)"
  by (simp add: ToolResponseToMCP_def extractResultText_def StructToMap_def Let_def)

theorem ToolResponseToMCP_renders_witness:
  \<open>ToolResponseToMCP json_env
     \<lparr>Success = False, Result = None, ErrorCode = ''validation_error'',
      ErrorMessage = ''title is required''\<rparr> =
     \<lparr>Content = [\<lparr>content_Type = ''text'', content_Text = ''title is required''\<rparr>],
      IsError = True\<rparr> \<and>
   ToolResponseToMCP json_env
     \<lparr>Success = False, Result = None, ErrorCode = ''validation_error'', ErrorMessage = []\<rparr> =
     \<lparr>Content = [\<lparr>content_Type = ''text'', content_Text = ''tool error: validation_error''\<rparr>],
      IsError = True\<rparr> \<and>
   ToolResponseToMCP json_env
     \<lparr>Success = True, Result = Some [(''text'', StringValue ''operation completed'')],
      ErrorCode = [], ErrorMessage = []\<rparr> =
     \<lparr>Content = [\<lparr>content_Type = ''text'', content_Text = ''operation completed''\<rparr>],
      IsError = False\<rparr> \<and>
   ToolResponseToMCP json_env
     \<lparr>Success = True,
      Result = Some [(''id'', StringValue ''abc-123''), (''count'', NumberValue (Num 3)),
        (''ok'', BoolValue True), (''none'', NullValue),
        (''tags'', ListValue (Some [StringValue ''a'', StringValue ''b''])),
        (''nested'', StructValue (Some [(''k'', StringValue ''v'')]))],
      ErrorCode = [], ErrorMessage = []\<rparr> =
     \<lparr>Content = [\<lparr>content_Type = ''text'',
        content_Text =
          ''{"id":"abc-123","count":3,"ok":true,"none":null,"tags":["a","b"],"nested":{"k":"v"}}''\<rparr>],
      IsError = False\<rparr> \<and>
   ToolResponseToMCP json_env
     \<lparr>Success = True, Result = Some [(''a'', ListValue (Some [NumberValue NaN]))],
      ErrorCode = [], ErrorMessage = []\<rparr> =
     \<lparr>Content = [\<lparr>content_Type = ''text'', content_Text = ''map[a:[NaN]]''\<rparr>],
      IsError = False\<rparr>\<close>
  using
    ToolResponseToMCP_renders [where e = json_env and r = "\<lparr>Success = False, Result = None,
      ErrorCode = ''validation_error'', ErrorMessage = ''title is required''\<rparr>"]
    ToolResponseToMCP_renders [where e = json_env and r = "\<lparr>Success = False, Result = None,
      ErrorCode = ''validation_error'', ErrorMessage = []\<rparr>"]
    ToolResponseToMCP_renders [where e = json_env and r = "\<lparr>Success = True,
      Result = Some [(''text'', StringValue ''operation completed'')],
      ErrorCode = [], ErrorMessage = []\<rparr>"]
    ToolResponseToMCP_renders [where e = json_env and r = "\<lparr>Success = True,
      Result = Some [(''id'', StringValue ''abc-123''), (''count'', NumberValue (Num 3)),
        (''ok'', BoolValue True), (''none'', NullValue),
        (''tags'', ListValue (Some [StringValue ''a'', StringValue ''b''])),
        (''nested'', StructValue (Some [(''k'', StringValue ''v'')]))],
      ErrorCode = [], ErrorMessage = []\<rparr>"]
    ToolResponseToMCP_renders [where e = json_env and r = "\<lparr>Success = True,
      Result = Some [(''a'', ListValue (Some [NumberValue NaN]))],
      ErrorCode = [], ErrorMessage = []\<rparr>"]
  by (simp add: json_env_def json_quote_def show_int_def digit_def)

text \<open>
  C10. A successful response whose result has a \<open>text\<close> field that does not hold a string
  (a number, a bool, a struct, a list, null, an unset or nil value) is rendered with the
  empty text, and so is a successful response without a result; neither is an error.
\<close>

theorem extractResultText_not_a_string:
  "(\<forall>fs v. Success r \<and> Result r = Some fs \<and> map_of fs ''text'' = Some v \<and>
      (\<forall>s. v \<noteq> StringValue s) \<longrightarrow>
      ToolResponseToMCP e r =
        \<lparr>Content = [\<lparr>content_Type = ''text'', content_Text = []\<rparr>], IsError = False\<rparr>) \<and>
   (Success r \<and> Result r = None \<longrightarrow>
      ToolResponseToMCP e r =
        \<lparr>Content = [\<lparr>content_Type = ''text'', content_Text = []\<rparr>], IsError = False\<rparr>)"
proof -
  have "GetStringValue v = []" if "\<forall>s. v \<noteq> StringValue s" for v :: "'a pvalue"
    using that by (cases v) simp_all
  then show ?thesis
    by (simp add: ToolResponseToMCP_def extractResultText_def)
qed

theorem extractResultText_not_a_string_witness:
  "ToolResponseToMCP (mock_env [] [])
     \<lparr>Success = True, Result = Some [(''text'', NumberValue 42)],
      ErrorCode = [], ErrorMessage = []\<rparr> =
     \<lparr>Content = [\<lparr>content_Type = ''text'', content_Text = []\<rparr>], IsError = False\<rparr> \<and>
   ToolResponseToMCP (mock_env [] [])
     \<lparr>Success = True, Result = Some [(''text'', StructValue (Some [(''a'', NullValue)]))],
      ErrorCode = [], ErrorMessage = []\<rparr> =
     \<lparr>Content = [\<lparr>content_Type = ''text'', content_Text = []\<rparr>], IsError = False\<rparr> \<and>
   ToolResponseToMCP (mock_env [] [])
     \<lparr>Success = True, Result = None, ErrorCode = [], ErrorMessage = []\<rparr> =
     \<lparr>Content = [\<lparr>content_Type = ''text'', content_Text = []\<rparr>], IsError = False\<rparr>"
  using
    extractResultText_not_a_string [where r = "\<lparr>Success = True,
      Result = Some [(''text'', NumberValue 42)], ErrorCode = [], ErrorMessage = []\<rparr>" and e = "mock_env [] []"]
    extractResultText_not_a_string [where r = "\<lparr>Success = True,
      Result = Some [(''text'', StructValue (Some [(''a'', NullValue)]))],
      ErrorCode = [], ErrorMessage = []\<rparr>" and e = "mock_env [] []"]
    extractResultText_not_a_string [where r = "\<lparr>Success = True, Result = None,
      ErrorCode = [], ErrorMessage = []\<rparr>" and e = "mock_env [] []"]
  by simp

section \<open>Errors of the tool handlers\<close>

text \<open>
  C4. A \<open>tools/call\<close> request whose params do not decode is answered with an InvalidParams
  error carrying the decoder's text. One without params, or whose params have no name or
  an empty one, is answered with an InvalidParams error whose message names the parameter
  \<open>name\<close>. One whose arguments map cannot be converted to a structured value is answered
  with an InvalidParams error carrying the text of the conversion failure. In each case the
  transport comes back as it was: nothing was passed to \<open>Send\<close>.
\<close>

theorem handleToolsCall_invalid_params:
  "(\<forall>raw err. req_Params req = Some raw \<and> Unmarshal_toolCallParams e raw = Inl err \<longrightarrow>
      handleToolsCall e t req =
        (\<lparr>resp_JSONRPC = ''2.0'', resp_ID = req_ID req, resp_Result = None,
          resp_Error = Some \<lparr>Code = InvalidParams, Message = ''invalid params: '' @ err\<rparr>\<rparr>,
         t)) \<and>
   (req_Params req = None \<or>
    (\<exists>raw p. req_Params req = Some raw \<and> Unmarshal_toolCallParams e raw = Inr p \<and>
       tc_Name p = []) \<longrightarrow>
      handleToolsCall e t req =
        (\<lparr>resp_JSONRPC = ''2.0'', resp_ID = req_ID req, resp_Result = None,
          resp_Error = Some \<lparr>Code = InvalidParams,
                             Message = ''missing required parameter: name''\<rparr>\<rparr>,
         t)) \<and>
   sublist ''name'' ''missing required parameter: name'' \<and>
   (\<forall>raw p m err. req_Params req = Some raw \<and> Unmarshal_toolCallParams e raw = Inr p \<and>
       tc_Name p \<noteq> [] \<and> tc_Arguments p = Some m \<and> NewStruct e (Some m) = Inl err \<longrightarrow>
      handleToolsCall e t req =
        (\<lparr>resp_JSONRPC = ''2.0'', resp_ID = req_ID req, resp_Result = None,
          resp_Error = Some \<lparr>Code = InvalidParams,
                             Message = ''invalid arguments: '' @ err\<rparr>\<rparr>,
         t))"
proof -
  have "sublist ''name'' (''missing required parameter: '' @ ''name'' @ [])"
    by (rule sublist_appendI)
  then have "sublist ''name'' ''missing required parameter: name''"
    by simp
  then show ?thesis
    by (auto simp: handleToolsCall_def decode_toolCallParams_def convert_arguments_def
        error_response_def)
qed

theorem handleToolsCall_invalid_params_witness:
  \<open>handleToolsCall example_env (NewStdioTransport [])
      (request (NFloat 1) ''tools/call'' (Some ''[]'')) =
      (\<lparr>resp_JSONRPC = ''2.0'', resp_ID = NFloat 1, resp_Result = None,
        resp_Error = Some \<lparr>Code = InvalidParams,
          Message = ''invalid params: unexpected end of JSON input''\<rparr>\<rparr>,
       NewStdioTransport []) \<and>
   handleToolsCall example_env (NewStdioTransport [])
      (request (NFloat 1) ''tools/call'' None) =
      (\<lparr>resp_JSONRPC = ''2.0'', resp_ID = NFloat 1, resp_Result = None,
        resp_Error = Some \<lparr>Code = InvalidParams,
          Message = ''missing required parameter: name''\<rparr>\<rparr>,
       NewStdioTransport []) \<and>
   handleToolsCall example_env (NewStdioTransport [])
      (request (NFloat 1) ''tools/call'' (Some ''{}'')) =
      (\<lparr>resp_JSONRPC = ''2.0'', resp_ID = NFloat 1, resp_Result = None,
        resp_Error = Some \<lparr>Code = InvalidParams,
          Message = ''missing required parameter: name''\<rparr>\<rparr>,
       NewStdioTransport []) \<and>
   handleToolsCall example_env (NewStdioTransport [])
      (request (NFloat 1) ''tools/call'' (Some ''{"name":"g"}'')) =
      (\<lparr>resp_JSONRPC = ''2.0'', resp_ID = NFloat 1, resp_Result = None,
        resp_Error = Some \<lparr>Code = InvalidParams,
          Message = ''invalid arguments: proto: invalid type''\<rparr>\<rparr>,
       NewStdioTransport [])\<close>
  using
    handleToolsCall_invalid_params [where e = example_env and t = "NewStdioTransport []"
      and req = \<open>request (NFloat 1) ''tools/call'' (Some ''[]'')\<close>]
    handleToolsCall_invalid_params [where e = example_env and t = "NewStdioTransport []"
      and req = \<open>request (NFloat 1) ''tools/call'' None\<close>]
    handleToolsCall_invalid_params [where e = example_env and t = "NewStdioTransport []"
      and req = \<open>request (NFloat 1) ''tools/call'' (Some ''{}'')\<close>]
    handleToolsCall_invalid_params [where e = example_env and t = "NewStdioTransport []"
      and req = \<open>request (NFloat 1) ''tools/call'' (Some ''{"name":"g"}'')\<close>]
  by (simp add: example_env_def mock_env_def example_params_def request_def
      structpb_NewStruct_def)

text \<open>
  C5. When \<open>Send\<close> fails, \<open>tools/list\<close> and \<open>tools/call\<close> answer with an InternalError
  whose message ends with the text of the failure, unchanged. When \<open>Send\<close> succeeds with a
  response that is not of the expected kind, they answer with the InternalError
  \<open>unexpected response type from orchestrator\<close>.
\<close>

theorem Send_failure_is_InternalError:
  "(\<forall>err x'. Send e (ext t) (listToolsRequest e req) = (Inl err, x') \<longrightarrow>
      fst (handleToolsList e t req) =
        \<lparr>resp_JSONRPC = ''2.0'', resp_ID = req_ID req, resp_Result = None,
         resp_Error = Some \<lparr>Code = InternalError,
                            Message = ''orchestrator list_tools failed: '' @ err\<rparr>\<rparr>) \<and>
   (\<forall>resp x'. Send e (ext t) (listToolsRequest e req) = (Inr resp, x') \<and>
       GetListTools resp = None \<longrightarrow>
      fst (handleToolsList e t req) =
        \<lparr>resp_JSONRPC = ''2.0'', resp_ID = req_ID req, resp_Result = None,
         resp_Error = Some \<lparr>Code = InternalError,
                            Message = ''unexpected response type from orchestrator''\<rparr>\<rparr>) \<and>
   (\<forall>p args err x'. decode_toolCallParams e (req_Params req) = Inr p \<and> tc_Name p \<noteq> [] \<and>
       convert_arguments e p = Inr args \<and>
       Send e (ext t) (toolCallRequest e req (tc_Name p) args) = (Inl err, x') \<longrightarrow>
      fst (handleToolsCall e t req) =
        \<lparr>resp_JSONRPC = ''2.0'', resp_ID = req_ID req, resp_Result = None,
         resp_Error = Some \<lparr>Code = InternalError,
                            Message = ''orchestrator tool_call failed: '' @ err\<rparr>\<rparr>) \<and>
   (\<forall>p args resp x'. decode_toolCallParams e (req_Params req) = Inr p \<and> tc_Name p \<noteq> [] \<and>
       convert_arguments e p = Inr args \<and>
       Send e (ext t) (toolCallRequest e req (tc_Name p) args) = (Inr resp, x') \<and>
       GetToolCall resp = None \<longrightarrow>
      fst (handleToolsCall e t req) =
        \<lparr>resp_JSONRPC = ''2.0'', resp_ID = req_ID req, resp_Result = None,
         resp_Error = Some \<lparr>Code = InternalError,
                            Message = ''unexpected response type from orchestrator''\<rparr>\<rparr>)"
  by (simp add: handleToolsList_def handleToolsCall_def sendToolCall_def call_Send_def
      error_response_def)

theorem Send_failure_is_InternalError_witness:
  \<open>fst (handleToolsList example_env (NewStdioTransport [Inl ''connection timeout''])
          (request (NFloat 2) ''tools/list'' None)) =
      \<lparr>resp_JSONRPC = ''2.0'', resp_ID = NFloat 2, resp_Result = None,
       resp_Error = Some \<lparr>Code = InternalError,
         Message = ''orchestrator list_tools failed: connection timeout''\<rparr>\<rparr> \<and>
   fst (handleToolsList example_env (NewStdioTransport [Inr Response_Other])
          (request (NFloat 2) ''tools/list'' None)) =
      \<lparr>resp_JSONRPC = ''2.0'', resp_ID = NFloat 2, resp_Result = None,
       resp_Error = Some \<lparr>Code = InternalError,
         Message = ''unexpected response type from orchestrator''\<rparr>\<rparr> \<and>
   fst (handleToolsCall example_env (NewStdioTransport [Inl ''connection refused''])
          (request (NFloat 1) ''tools/call'' (Some ''{"name":"f"}''))) =
      \<lparr>resp_JSONRPC = ''2.0'', resp_ID = NFloat 1, resp_Result = None,
       resp_Error = Some \<lparr>Code = InternalError,
         Message = ''orchestrator tool_call failed: connection refused''\<rparr>\<rparr> \<and>
   fst (handleToolsCall example_env (NewStdioTransport [Inr (Response_ListTools [])])
          (request (NFloat 1) ''tools/call'' (Some ''{"name":"f"}''))) =
      \<lparr>resp_JSONRPC = ''2.0'', resp_ID = NFloat 1, resp_Result = None,
       resp_Error = Some \<lparr>Code = InternalError,
         Message = ''unexpected response type from orchestrator''\<rparr>\<rparr>\<close>
  using
    Send_failure_is_InternalError [where e = example_env
      and t = "NewStdioTransport [Inl ''connection timeout'']"
      and req = \<open>request (NFloat 2) ''tools/list'' None\<close>]
    Send_failure_is_InternalError [where e = example_env
      and t = "NewStdioTransport [Inr Response_Other]"
      and req = \<open>request (NFloat 2) ''tools/list'' None\<close>]
    Send_failure_is_InternalError [where e = example_env
      and t = "NewStdioTransport [Inl ''connection refused'']"
      and req = \<open>request (NFloat 1) ''tools/call'' (Some ''{"name":"f"}'')\<close>]
    Send_failure_is_InternalError [where e = example_env
      and t = "NewStdioTransport [Inr (Response_ListTools [])]"
      and req = \<open>request (NFloat 1) ''tools/call'' (Some ''{"name":"f"}'')\<close>]
  by (simp add: example_env_def mock_env_def example_params_def request_def
      structpb_NewStruct_def NewStdioTransport_def mock_Send_def decode_toolCallParams_def
      convert_arguments_def GetListTools_def GetToolCall_def)

section \<open>What a dispatch leaves behind\<close>

lemma call_Send_written:
  "call_Send e t preq = (r, t') \<Longrightarrow> written t' = written t \<and> logged t' = logged t"
  by (auto simp: call_Send_def split: prod.splits)

lemma handleToolsList_keeps:
  "handleToolsList e t req = (r, t') \<Longrightarrow> written t' = written t \<and> resp_ID r = req_ID req"
  by (auto simp: handleToolsList_def error_response_def result_response_def
      split: prod.splits sum.splits option.splits dest: call_Send_written)

lemma sendToolCall_keeps:
  "sendToolCall e t req name args = (r, t') \<Longrightarrow>
     written t' = written t \<and> resp_ID r = req_ID req"
  by (auto simp: sendToolCall_def error_response_def result_response_def
      split: prod.splits sum.splits option.splits dest: call_Send_written)

lemma handleToolsCall_keeps:
  "handleToolsCall e t req = (r, t') \<Longrightarrow> written t' = written t \<and> resp_ID r = req_ID req"
  by (auto simp: handleToolsCall_def error_response_def
      split: sum.splits if_splits dest: sendToolCall_keeps)

lemma handlePromptsList_keeps:
  "handlePromptsList e t req = (r, t') \<Longrightarrow> written t' = written t \<and> resp_ID r = req_ID req"
  by (auto simp: handlePromptsList_def error_response_def result_response_def
      split: prod.splits sum.splits option.splits dest: call_Send_written)

lemma handlePromptsGet_keeps:
  "handlePromptsGet e t req = (r, t') \<Longrightarrow> written t' = written t \<and> resp_ID r = req_ID req"
  by (auto simp: handlePromptsGet_def error_response_def result_response_def
      split: prod.splits sum.splits option.splits if_splits dest: call_Send_written)

lemma exact_not_notification:
  "m \<in> set exact_methods \<Longrightarrow> \<not> prefix ''notifications/'' m"
  by (auto simp: exact_methods_def)

lemma dispatch_notification:
  "prefix ''notifications/'' (req_Method req) \<Longrightarrow>
     dispatch e t req =
       (None, t\<lparr>logged := logged t @ [''notification: '' @ req_Method req]\<rparr>)"
  by (auto simp: dispatch_def)

lemma dispatch_answers:
  assumes "\<not> prefix ''notifications/'' (req_Method req)"
  shows "\<exists>r t'. dispatch e t req = (Some r, t') \<and> written t' = written t \<and>
           resp_ID r = req_ID req"
  using assms
  by (auto simp: dispatch_def handleInitialize_def handlePing_def result_response_def
      error_response_def split: prod.splits
      dest: handleToolsList_keeps handleToolsCall_keeps handlePromptsList_keeps
        handlePromptsGet_keeps)

lemma dispatch_unknown:
  "req_Method req \<notin> set exact_methods \<Longrightarrow> \<not> prefix ''notifications/'' (req_Method req) \<Longrightarrow>
     dispatch e t req =
       (Some (error_response (req_ID req) MethodNotFound
                (''method not found: '' @ req_Method req)), t)"
  by (simp add: dispatch_def exact_methods_def)

section \<open>What one turn of the loop writes\<close>


lemma writeResponse_written:
  "Marshal_response e resp = Inr data \<Longrightarrow>
     written (snd (writeResponse e t resp)) = written t @ [data @ newline]"
  by (simp add: writeResponse_def split: prod.splits)

lemma written_after_write:
  "written (snd (case writeResponse e t r of
                   (Some werr, t') \<Rightarrow> (Some (p @ werr), t')
                 | (None, t') \<Rightarrow> (None, t'))) =
     written (snd (writeResponse e t r))"
  by (simp split: prod.splits option.splits)



lemma loop_body_parse_error:
  assumes "ctx_Err ev = None" and "TrimSpace e (Text ev) \<noteq> []" and "decoded e ev = Inl err"
    and "Marshal_response e (error_response NNil ParseError (''parse error: '' @ err)) =
      Inr data"
  shows "written (snd (loop_body e t ev)) = written t @ [data @ newline]"
proof -
  have "written (snd (loop_body e t ev)) =
      written (snd (writeResponse e t
        (error_response NNil ParseError (''parse error: '' @ err))))"
    using assms(1-3) unfolding loop_body_def decoded_def Let_def
    by (simp only: option.case sum.case if_False written_after_write)
  then show ?thesis
    using writeResponse_written [OF assms(4), of t] by simp
qed

lemma loop_body_unknown_method:
  assumes "ctx_Err ev = None" and "TrimSpace e (Text ev) \<noteq> []" and "decoded e ev = Inr req"
    and "req_Method req \<notin> set exact_methods"
    and "\<not> prefix ''notifications/'' (req_Method req)"
    and "Marshal_response e
      (error_response (req_ID req) MethodNotFound (''method not found: '' @ req_Method req)) =
      Inr data"
  shows "written (snd (loop_body e t ev)) = written t @ [data @ newline]"
proof -
  have "written (snd (loop_body e t ev)) =
      written (snd (writeResponse e t
        (error_response (req_ID req) MethodNotFound
           (''method not found: '' @ req_Method req))))"
    using assms(1-3) dispatch_unknown [OF assms(4,5), of e t]
    unfolding loop_body_def decoded_def Let_def
    by (simp only: option.case sum.case if_False prod.case written_after_write)
  then show ?thesis
    using writeResponse_written [OF assms(6), of t] by simp
qed

section \<open>The run loop\<close>




text \<open>
  C2. A request without an id is answered whenever its method has a handler: \<open>dispatch\<close>
  never looks at the id. The request \<open>ping\<close> without an id gets the empty result with a nil
  id, and \<open>Run\<close> writes it: one output line, where a notification should get none.
\<close>

theorem idless_ping_is_answered:
  \<open>dispatch e t \<lparr>req_JSONRPC = ''2.0'', req_ID = NNil, req_Method = ''ping'',
                  req_Params = None\<rparr> =
     (Some \<lparr>resp_JSONRPC = ''2.0'', resp_ID = NNil, resp_Result = Some EmptyObject,
            resp_Error = None\<rparr>, t) \<and>
   Run example_env (NewStdioTransport []) None
      [scanned ''{"jsonrpc":"2.0","method":"ping"}''] =
     (None,
      \<lparr>ext = [], sent = [], written = [''id=<nil> result'' @ newline], logged = []\<rparr>,
      [])\<close>
  by (simp add: example_env_def mock_env_def example_requests_def request_def scanned_def
      NewStdioTransport_def loop_body_def dispatch_def writeResponse_def trim_blanks_def
      mock_Marshal_response_def mock_Sprint_def handlePing_def
      result_response_def scanner_error_def)

text \<open>
  C7, as stated, fails: the loop asks for the cancellation signal after \<open>Scan\<close> has read
  the next line, not before. With the signal already triggered and two lines waiting, \<open>Run\<close>
  returns the cancellation error with one line left in the reader, not two: the first line
  has been read and is dropped.
\<close>

theorem cancellation_is_checked_after_the_read:
  \<open>snd (snd (Run example_env (NewStdioTransport []) None
      [scanned_cancelled ''{"jsonrpc":"2.0","id":1,"method":"initialize"}'',
       scanned ''{"jsonrpc":"2.0","id":2,"method":"ping"}''])) \<noteq>
      [scanned_cancelled ''{"jsonrpc":"2.0","id":1,"method":"initialize"}'',
       scanned ''{"jsonrpc":"2.0","id":2,"method":"ping"}''] \<and>
   Run example_env (NewStdioTransport []) None
      [scanned_cancelled ''{"jsonrpc":"2.0","id":1,"method":"initialize"}'',
       scanned ''{"jsonrpc":"2.0","id":2,"method":"ping"}''] =
     (Some ''context canceled'', NewStdioTransport [],
      [scanned ''{"jsonrpc":"2.0","id":2,"method":"ping"}''])\<close>
  by (simp add: scanned_cancelled_def loop_body_def)

text \<open>
  C7, amended. The loop asks for the cancellation signal at the start of each loop body,
  right after the scanner has read a line. If the signal is triggered then, \<open>Run\<close> returns
  the cancellation error at once: the line just read is dropped, nothing is sent or written
  for it, and the transport is as before. A line that passed its check is processed to the
  end of its loop body (dispatch, \<open>Send\<close> and \<open>Write\<close> included) before the signal is asked
  for again: when the next line finds it triggered, the transport returned is the one the
  whole loop body of the line before left.
\<close>

theorem Run_cancellation:
  "(\<forall>err. ctx_Err ev = Some err \<longrightarrow> Run e t rerr (ev # rest) = (Some err, t, rest)) \<and>
   (\<forall>err t'. loop_body e t ev = (None, t') \<and> ctx_Err ev' = Some err \<longrightarrow>
      Run e t rerr (ev # ev' # rest) = (Some err, t', rest))"
  by (simp add: loop_body_def)

theorem Run_cancellation_witness:
  \<open>Run example_env (NewStdioTransport []) None
      [scanned_cancelled ''{"jsonrpc":"2.0","id":1,"method":"initialize"}'',
       scanned ''{"jsonrpc":"2.0","id":2,"method":"ping"}''] =
     (Some ''context canceled'', NewStdioTransport [],
      [scanned ''{"jsonrpc":"2.0","id":2,"method":"ping"}'']) \<and>
   Run example_env (NewStdioTransport []) None
      [scanned ''{"jsonrpc":"2.0","id":1,"method":"initialize"}'',
       scanned_cancelled ''{"jsonrpc":"2.0","id":2,"method":"ping"}'',
       scanned ''{"jsonrpc":"2.0","id":2,"method":"ping"}''] =
     (Some ''context canceled'',
      \<lparr>ext = [], sent = [], written = [''id=1 result'' @ newline], logged = []\<rparr>,
      [scanned ''{"jsonrpc":"2.0","id":2,"method":"ping"}''])\<close>
  using
    Run_cancellation [where e = example_env and t = "NewStdioTransport []" and rerr = None
      and ev = \<open>scanned_cancelled ''{"jsonrpc":"2.0","id":1,"method":"initialize"}''\<close>
      and rest = \<open>[scanned ''{"jsonrpc":"2.0","id":2,"method":"ping"}'']\<close>]
    Run_cancellation [where e = example_env and t = "NewStdioTransport []" and rerr = None
      and ev = \<open>scanned ''{"jsonrpc":"2.0","id":1,"method":"initialize"}''\<close>
      and ev' = \<open>scanned_cancelled ''{"jsonrpc":"2.0","id":2,"method":"ping"}''\<close>
      and rest = \<open>[scanned ''{"jsonrpc":"2.0","id":2,"method":"ping"}'']\<close>]
  by (simp add: example_env_def mock_env_def example_requests_def request_def scanned_def
      scanned_cancelled_def
      NewStdioTransport_def loop_body_def dispatch_def writeResponse_def trim_blanks_def
      mock_Marshal_response_def mock_Sprint_def handleInitialize_def
      result_response_def)

text \<open>
  C8. A request whose method starts with \<open>notifications/\<close> matches no handler (no handled
  method has the prefix), and \<open>dispatch\<close> returns no response for it, only logging the
  method, whatever its id and params: never the unknown-method error. The loop then writes
  nothing and sends nothing. These are the only requests \<open>dispatch\<close> leaves unanswered.
\<close>

theorem notification_methods_get_no_response:
  "(prefix ''notifications/'' (req_Method req) \<longrightarrow>
      req_Method req \<notin> set exact_methods \<and>
      dispatch e t req =
        (None, t\<lparr>logged := logged t @ [''notification: '' @ req_Method req]\<rparr>) \<and>
      (\<forall>ev. ctx_Err ev = None \<and> TrimSpace e (Text ev) \<noteq> [] \<and> decoded e ev = Inr req \<longrightarrow>
         loop_body e t ev =
           (None, t\<lparr>logged := logged t @ [''notification: '' @ req_Method req]\<rparr>) \<and>
         written (snd (loop_body e t ev)) = written t \<and>
         sent (snd (loop_body e t ev)) = sent t)) \<and>
   (fst (dispatch e t req) = None) = prefix ''notifications/'' (req_Method req)"
proof -
  let ?t' = "t\<lparr>logged := logged t @ [''notification: '' @ req_Method req]\<rparr>"
  have iff: "(fst (dispatch e t req) = None) = prefix ''notifications/'' (req_Method req)"
  proof (cases "prefix ''notifications/'' (req_Method req)")
    case True
    then show ?thesis by (simp add: dispatch_notification)
  next
    case False
    from dispatch_answers [OF False, of e t] obtain r t1 where
      "dispatch e t req = (Some r, t1)" by blast
    then show ?thesis using False by simp
  qed
  have body: "loop_body e t ev = (None, ?t')"
    if "prefix ''notifications/'' (req_Method req)" and "ctx_Err ev = None"
      and "TrimSpace e (Text ev) \<noteq> []" and "decoded e ev = Inr req" for ev
    using that(2-4) dispatch_notification [OF that(1), of e t]
    unfolding loop_body_def decoded_def Let_def
    by (simp only: option.case sum.case if_False prod.case)
  have exact: "req_Method req \<notin> set exact_methods"
    if "prefix ''notifications/'' (req_Method req)"
    using that exact_not_notification by blast
  show ?thesis
  proof (intro conjI impI allI)
    assume "prefix ''notifications/'' (req_Method req)"
    then show "req_Method req \<notin> set exact_methods" by (rule exact)
  next
    assume "prefix ''notifications/'' (req_Method req)"
    then show "dispatch e t req = (None, ?t')" by (rule dispatch_notification)
  next
    fix ev
    assume p: "prefix ''notifications/'' (req_Method req)"
      and a: "ctx_Err ev = None \<and> TrimSpace e (Text ev) \<noteq> [] \<and> decoded e ev = Inr req"
    from body [OF p] a show "loop_body e t ev = (None, ?t')" by blast
    then show "written (snd (loop_body e t ev)) = written t" by simp
    from \<open>loop_body e t ev = (None, ?t')\<close>
    show "sent (snd (loop_body e t ev)) = sent t" by simp
  next
    show "(fst (dispatch e t req) = None) = prefix ''notifications/'' (req_Method req)"
      by (rule iff)
  qed
qed

theorem notification_methods_get_no_response_witness:
  \<open>dispatch example_env (NewStdioTransport [])
      (request (NFloat 1) ''notifications/initialized'' None) =
     (None, \<lparr>ext = [], sent = [], written = [],
             logged = [''notification: notifications/initialized'']\<rparr>) \<and>
   loop_body example_env (NewStdioTransport [])
      (scanned ''{"jsonrpc":"2.0","id":1,"method":"notifications/initialized"}'') =
     (None, \<lparr>ext = [], sent = [], written = [],
             logged = [''notification: notifications/initialized'']\<rparr>)\<close>
proof -
  let ?req = "request (NFloat 1) ''notifications/initialized'' None"
  let ?ev = \<open>scanned ''{"jsonrpc":"2.0","id":1,"method":"notifications/initialized"}''\<close>
  let ?t = "NewStdioTransport [] :: (int, (string + int PluginResponse) list) StdioTransport"
  have p: "prefix ''notifications/'' (req_Method ?req)"
    by (simp add: request_def)
  have ev: "ctx_Err ?ev = None \<and> TrimSpace example_env (Text ?ev) \<noteq> [] \<and>
      decoded example_env ?ev = Inr ?req"
    by (simp add: scanned_def decoded_def example_env_def mock_env_def trim_blanks_def
        example_requests_def)
  have t: "?t\<lparr>logged := logged ?t @ [''notification: '' @ req_Method ?req]\<rparr> =
      \<lparr>ext = [], sent = [], written = [],
       logged = [''notification: notifications/initialized'']\<rparr>"
    by (simp add: NewStdioTransport_def request_def)
  note th = notification_methods_get_no_response
    [where e = example_env and t = ?t and req = ?req, THEN conjunct1, THEN mp, OF p]
  from th have "dispatch example_env ?t ?req =
      (None, ?t\<lparr>logged := logged ?t @ [''notification: '' @ req_Method ?req]\<rparr>)"
    by (rule conjunct2 [THEN conjunct1])
  moreover from th ev have "loop_body example_env ?t ?ev =
      (None, ?t\<lparr>logged := logged ?t @ [''notification: '' @ req_Method ?req]\<rparr>)"
    by blast
  ultimately show ?thesis
    unfolding t by (rule conjI)
qed

text \<open>
  C9. For a non-blank line that does not decode, the loop writes the response with the
  ParseError code and a nil id. For a request whose method has no handler and not the
  notification prefix, it writes the response with the MethodNotFound code whose message
  ends with the method name, whether the id is present or not.
\<close>

theorem parse_and_routing_errors:
  "(\<forall>err data. ctx_Err ev = None \<and> TrimSpace e (Text ev) \<noteq> [] \<and> decoded e ev = Inl err \<and>
      Marshal_response e
        \<lparr>resp_JSONRPC = ''2.0'', resp_ID = NNil, resp_Result = None,
         resp_Error = Some \<lparr>Code = ParseError, Message = ''parse error: '' @ err\<rparr>\<rparr> =
        Inr data \<longrightarrow>
      written (snd (loop_body e t ev)) = written t @ [data @ newline]) \<and>
   (\<forall>req data. ctx_Err ev = None \<and> TrimSpace e (Text ev) \<noteq> [] \<and> decoded e ev = Inr req \<and>
      req_Method req \<notin> set exact_methods \<and> \<not> prefix ''notifications/'' (req_Method req) \<and>
      Marshal_response e
        \<lparr>resp_JSONRPC = ''2.0'', resp_ID = req_ID req, resp_Result = None,
         resp_Error = Some \<lparr>Code = MethodNotFound,
                            Message = ''method not found: '' @ req_Method req\<rparr>\<rparr> =
        Inr data \<longrightarrow>
      written (snd (loop_body e t ev)) = written t @ [data @ newline])"
  using loop_body_parse_error [of ev e _ _ t] loop_body_unknown_method [of ev e _ _ t]
  unfolding error_response_def by blast

theorem parse_and_routing_errors_witness:
  \<open>written (snd (loop_body example_env (NewStdioTransport []) (scanned ''{invalid json}''))) =
     [''id=<nil> error=parse error: invalid character'' @ newline] \<and>
   written (snd (loop_body example_env (NewStdioTransport [])
      (scanned ''{"jsonrpc":"2.0","id":"a","method":"unknown/method"}''))) =
     [''id=a error=method not found: unknown/method'' @ newline]\<close>
proof -
  let ?t = "NewStdioTransport [] :: (int, (string + int PluginResponse) list) StdioTransport"
  let ?ev1 = \<open>scanned ''{invalid json}''\<close>
  let ?ev2 = \<open>scanned ''{"jsonrpc":"2.0","id":"a","method":"unknown/method"}''\<close>
  let ?req = "request (NString ''a'') ''unknown/method'' None"
  have h1: "ctx_Err ?ev1 = None \<and> TrimSpace example_env (Text ?ev1) \<noteq> [] \<and>
      decoded example_env ?ev1 = Inl ''invalid character'' \<and>
      Marshal_response example_env
        \<lparr>resp_JSONRPC = ''2.0'', resp_ID = NNil, resp_Result = None,
         resp_Error = Some \<lparr>Code = ParseError,
                            Message = ''parse error: '' @ ''invalid character''\<rparr>\<rparr> =
        Inr ''id=<nil> error=parse error: invalid character''"
    by (simp add: scanned_def decoded_def example_env_def mock_env_def trim_blanks_def
        example_requests_def mock_Marshal_response_def mock_Sprint_def)
  have h2: "ctx_Err ?ev2 = None \<and> TrimSpace example_env (Text ?ev2) \<noteq> [] \<and>
      decoded example_env ?ev2 = Inr ?req \<and>
      req_Method ?req \<notin> set exact_methods \<and> \<not> prefix ''notifications/'' (req_Method ?req) \<and>
      Marshal_response example_env
        \<lparr>resp_JSONRPC = ''2.0'', resp_ID = req_ID ?req, resp_Result = None,
         resp_Error = Some \<lparr>Code = MethodNotFound,
                            Message = ''method not found: '' @ req_Method ?req\<rparr>\<rparr> =
        Inr ''id=a error=method not found: unknown/method''"
    by (simp add: scanned_def decoded_def example_env_def mock_env_def trim_blanks_def
        example_requests_def mock_Marshal_response_def mock_Sprint_def request_def
        exact_methods_def)
  have w: "written ?t = []" by (simp add: NewStdioTransport_def)
  from parse_and_routing_errors [where e = example_env and t = ?t and ev = ?ev1,
      THEN conjunct1, rule_format, OF h1]
  have a: "written (snd (loop_body example_env ?t ?ev1)) =
      [''id=<nil> error=parse error: invalid character'' @ newline]"
    unfolding w by simp
  from parse_and_routing_errors [where e = example_env and t = ?t and ev = ?ev2,
      THEN conjunct2, rule_format, OF h2]
  have b: "written (snd (loop_body example_env ?t ?ev2)) =
      [''id=a error=method not found: unknown/method'' @ newline]"
    unfolding w by simp
  from a b show ?thesis by (rule conjI)
qed

section \<open>Round trips of the translator\<close>

lemma collect_map_Inr:
  "(\<And>x. x \<in> set xs \<Longrightarrow> f x = Inr (g x)) \<Longrightarrow> collect (map f xs) = Inr (map g xs)"
  by (induction xs) simp_all

lemma collect_map_inverse:
  "(\<And>x. x \<in> set xs \<Longrightarrow> \<exists>y. f x = Inr y \<and> g y = x) \<Longrightarrow>
     \<exists>ys. collect (map f xs) = Inr ys \<and> map g ys = xs"
proof (induction xs)
  case Nil
  then show ?case by simp
next
  case (Cons x xs)
  from Cons.prems [of x] obtain y where y: "f x = Inr y" "g y = x" by auto
  from Cons.IH Cons.prems obtain ys where ys: "collect (map f xs) = Inr ys" "map g ys = xs"
    by auto
  from y ys show ?case by simp
qed

lemma NewValue_valueToInterface:
  "expressible v \<Longrightarrow> structpb_NewValue (valueToInterface v) = Inr v"
proof (induction v rule: valueToInterface.induct)
  case (7 fs)
  have "collect (map ((\<lambda>(k, v). case structpb_NewValue v of
                                    Inl err \<Rightarrow> Inl err
                                  | Inr p \<Rightarrow> Inr (k, p)) \<circ>
                      (\<lambda>(k, v). (k, valueToInterface v))) fs) = Inr (map (\<lambda>x. x) fs)"
  proof (rule collect_map_Inr)
    fix x assume x: "x \<in> set fs"
    obtain k v where kv: "x = (k, v)" by (cases x)
    with x "7.prems" have "expressible v" by auto
    with "7.IH" [OF x kv [symmetric]] have "structpb_NewValue (valueToInterface v) = Inr v" .
    with kv show "((\<lambda>(k, v). case structpb_NewValue v of
                                    Inl err \<Rightarrow> Inl err
                                  | Inr p \<Rightarrow> Inr (k, p)) \<circ>
                      (\<lambda>(k, v). (k, valueToInterface v))) x = Inr x"
      by simp
  qed
  then show ?case by simp
next
  case (9 vs)
  have "collect (map (structpb_NewValue \<circ> valueToInterface) vs) = Inr (map (\<lambda>x. x) vs)"
  proof (rule collect_map_Inr)
    fix x assume x: "x \<in> set vs"
    with "9.prems" have "expressible x" by simp
    with "9.IH" [OF x] show "(structpb_NewValue \<circ> valueToInterface) x = Inr x" by simp
  qed
  then show ?case by simp
qed simp_all

lemma valueToInterface_NewValue:
  "json_like n \<Longrightarrow> \<exists>p. structpb_NewValue n = Inr p \<and> valueToInterface p = n"
proof (induction n rule: structpb_NewValue.induct)
  case (6 m)
  have "\<exists>ys. collect (map (\<lambda>(k, v). case structpb_NewValue v of
                                      Inl err \<Rightarrow> Inl err
                                    | Inr p \<Rightarrow> Inr (k, p)) m) = Inr ys \<and>
          map (\<lambda>(k, v). (k, valueToInterface v)) ys = m"
  proof (rule collect_map_inverse)
    fix x assume x: "x \<in> set m"
    obtain k v where kv: "x = (k, v)" by (cases x)
    with x "6.prems" have "json_like v" by auto
    with "6.IH" [OF x kv [symmetric]] obtain p where
      "structpb_NewValue v = Inr p" "valueToInterface p = v" by blast
    with kv show "\<exists>y. (case x of (k, v) \<Rightarrow> case structpb_NewValue v of
                                      Inl err \<Rightarrow> Inl err
                                    | Inr p \<Rightarrow> Inr (k, p)) = Inr y \<and>
          (case y of (k, v) \<Rightarrow> (k, valueToInterface v)) = x"
      by simp
  qed
  then show ?case by auto
next
  case (7 xs)
  have "\<exists>ys. collect (map structpb_NewValue xs) = Inr ys \<and> map valueToInterface ys = xs"
  proof (rule collect_map_inverse)
    fix x assume x: "x \<in> set xs"
    with "7.prems" have "json_like x" by simp
    with "7.IH" [OF x] show "\<exists>y. structpb_NewValue x = Inr y \<and> valueToInterface y = x" .
  qed
  then show ?case by auto
qed simp_all

lemma MapToStruct_StructToMap:
  assumes "NewStruct e = structpb_NewStruct" and "\<forall>(k, v) \<in> set fs. expressible v"
  shows "MapToStruct e (StructToMap (Some fs)) = Inr fs"
proof -
  have "structpb_NewValue (valueToInterface (StructValue (Some fs))) =
      Inr (StructValue (Some fs))"
    using assms(2) by (intro NewValue_valueToInterface) simp
  then show ?thesis
    using assms(1)
    by (simp add: MapToStruct_def StructToMap_def structpb_NewStruct_def split: sum.splits)
qed

lemma StructToMap_MapToStruct:
  assumes "NewStruct e = structpb_NewStruct" and "\<forall>(k, v) \<in> set m. json_like v"
  shows "\<exists>fs. MapToStruct e (Some m) = Inr fs \<and> StructToMap (Some fs) = Some m"
proof -
  from assms(2) have "json_like (NMap (Some m))" by simp
  from valueToInterface_NewValue [OF this] obtain p where
    p: "structpb_NewValue (NMap (Some m)) = Inr p" "valueToInterface p = NMap (Some m)"
    by blast
  then show ?thesis
    using assms(1)
    by (auto simp: MapToStruct_def StructToMap_def structpb_NewStruct_def split: sum.splits)
qed

text \<open>
  C6. With the structured-value constructor of the spec for \<open>structpb.NewStruct\<close>: a struct
  whose values are expressible in both models comes back unchanged from \<open>StructToMap\<close>
  followed by \<open>MapToStruct\<close>; a native map whose values are expressible in both models is
  accepted by \<open>MapToStruct\<close> and comes back unchanged from \<open>StructToMap\<close>, its explicit
  nulls included. The asymmetry is kept: a null in an optional position (the arguments of
  a call) becomes an absent struct, not an empty one, and what is absent on the structured
  side (a nil struct, a nil or kind-less value, a nil list) translates to nil.
\<close>

theorem translator_round_trips:
  assumes "NewStruct e = structpb_NewStruct"
  shows "((\<forall>(k, v) \<in> set fs. expressible v) \<longrightarrow>
            MapToStruct e (StructToMap (Some fs)) = Inr fs) \<and>
         ((\<forall>(k, v) \<in> set m. json_like v) \<longrightarrow>
            (\<exists>fs'. MapToStruct e (Some m) = Inr fs' \<and> StructToMap (Some fs') = Some m)) \<and>
         (tc_Arguments p = None \<longrightarrow> convert_arguments e p = Inr None) \<and>
         StructToMap None = None \<and>
         valueToInterface NilValue = NNil \<and>
         valueToInterface NoKind = NNil \<and>
         valueToInterface (ListValue None) = NNil"
  using MapToStruct_StructToMap [OF assms, of fs] StructToMap_MapToStruct [OF assms, of m]
  by (simp add: convert_arguments_def StructToMap_def)

theorem translator_round_trips_witness:
  "MapToStruct example_env
     (StructToMap (Some [(''name'', StringValue ''test''), (''count'', NumberValue 42),
        (''active'', BoolValue True), (''none'', NullValue),
        (''tags'', ListValue (Some [StringValue ''a'', StringValue ''b''])),
        (''nested'', StructValue (Some [(''key'', StringValue ''val'')]))])) =
     Inr [(''name'', StringValue ''test''), (''count'', NumberValue 42),
        (''active'', BoolValue True), (''none'', NullValue),
        (''tags'', ListValue (Some [StringValue ''a'', StringValue ''b''])),
        (''nested'', StructValue (Some [(''key'', StringValue ''val'')]))] \<and>
   (\<exists>fs'. MapToStruct example_env
       (Some [(''type'', NString ''object''), (''limit'', NNil),
          (''properties'', NMap (Some [(''id'', NSlice [NFloat 1, NBool False])]))]) =
       Inr fs' \<and>
     StructToMap (Some fs') =
       Some [(''type'', NString ''object''), (''limit'', NNil),
          (''properties'', NMap (Some [(''id'', NSlice [NFloat 1, NBool False])]))]) \<and>
   convert_arguments example_env \<lparr>tc_Name = ''f'', tc_Arguments = None\<rparr> = Inr None"
proof -
  have env: "NewStruct example_env = structpb_NewStruct"
    by (simp add: example_env_def mock_env_def)
  let ?fs = "[(''name'', StringValue ''test''), (''count'', NumberValue (42::int)),
        (''active'', BoolValue True), (''none'', NullValue),
        (''tags'', ListValue (Some [StringValue ''a'', StringValue ''b''])),
        (''nested'', StructValue (Some [(''key'', StringValue ''val'')]))]"
  let ?m = "[(''type'', NString ''object''), (''limit'', NNil),
          (''properties'', NMap (Some [(''id'', NSlice [NFloat (1::int), NBool False])]))]"
  let ?p = "\<lparr>tc_Name = ''f'', tc_Arguments = None :: (string \<times> int native) list option\<rparr>"
  have h1: "\<forall>(k, v) \<in> set ?fs. expressible v" by simp
  have h2: "\<forall>(k, v) \<in> set ?m. json_like v" by simp
  have h3: "tc_Arguments ?p = None" by simp
  note th = translator_round_trips [OF env, of ?fs ?m ?p]
  from th h1 have a: "MapToStruct example_env (StructToMap (Some ?fs)) = Inr ?fs" by blast
  from th h2 have b: "\<exists>fs'. MapToStruct example_env (Some ?m) = Inr fs' \<and>
      StructToMap (Some fs') = Some ?m" by blast
  from th h3 have c: "convert_arguments example_env ?p = Inr None" by blast
  from a b c show ?thesis by blast
qed

end
